theory Spec2Isabelle
  imports Main
begin

section \<open>discord-mod-mail: the relay client of \<^verbatim>\<open>main.py\<close>\<close>

text \<open>
  The client relays direct messages of users to one coordination channel and staff replies
  back, keeps a persisted ignore table, and counts direct messages per user to ignore
  flooders automatically. Each handler of \<^verbatim>\<open>class ModMail\<close> becomes a function from
  the state of the client and the inbound event to the new state, the list of outbound calls
  in the order they are issued, and the way the invocation ends.
\<close>

subsection \<open>Text\<close>

text \<open>
  A character is a code point below 256, which is what the type of strings holds; text with
  higher code points is outside the model. On these code points the classes are those of
  Python: \<^verbatim>\<open>str.isdigit\<close> holds for the ten decimal digits and for the superscripts
  U+00B2, U+00B3 and U+00B9, \<^verbatim>\<open>int()\<close> reads the decimal digits only, and the
  whitespace at which \<^verbatim>\<open>str.split\<close> splits is U+0009 to U+000D, U+001C to U+0020,
  U+0085 and U+00A0.
\<close>

definition digit_char :: "nat \<Rightarrow> char" where
  "digit_char d = char_of (48 + d)"

text \<open>\<^verbatim>\<open>str(n)\<close> and the \<^verbatim>\<open>{n}\<close> of an f-string, for an integer.\<close>

function str_nat :: "nat \<Rightarrow> string" where
  "str_nat n = (if n < 10 then [digit_char n] else str_nat (n div 10) @ [digit_char (n mod 10)])"
  by pat_completeness auto
termination
  by (relation "measure id") auto

declare str_nat.simps [simp del]

definition str_int :: "int \<Rightarrow> string" where
  "str_int i = (if i < 0 then CHR ''-'' # str_nat (nat (- i)) else str_nat (nat i))"

definition isdecimal_char :: "char \<Rightarrow> bool" where
  "isdecimal_char c = ((48::nat) \<le> of_char c \<and> of_char c \<le> (57::nat))"

definition isdigit_char :: "char \<Rightarrow> bool" where
  "isdigit_char c = (isdecimal_char c \<or> of_char c \<in> {178, 179, 185::nat})"

definition isspace_char :: "char \<Rightarrow> bool" where
  "isspace_char c = (of_char c \<in> {9, 10, 11, 12, 13, 28, 29, 30, 31, 32, 133, 160::nat})"

text \<open>\<^verbatim>\<open>s.isdigit()\<close>: every character a digit, and at least one.\<close>

definition isdigit :: "string \<Rightarrow> bool" where
  "isdigit s = (s \<noteq> [] \<and> list_all isdigit_char s)"

definition digit_val :: "char \<Rightarrow> nat" where
  "digit_val c = (of_char c :: nat) - 48"

definition digits_val :: "string \<Rightarrow> nat" where
  "digits_val s = foldl (\<lambda>acc c. 10 * acc + digit_val c) 0 s"

text \<open>
  The digit part of an integer literal as \<^verbatim>\<open>int()\<close> reads it: decimal digits, with
  single underscores allowed between two digits.
\<close>

fun digits_ok :: "string \<Rightarrow> bool" where
  "digits_ok [] = False"
| "digits_ok [c] = isdecimal_char c"
| "digits_ok (c # d # r) =
     (isdecimal_char c \<and>
      (if d = CHR ''_'' then r \<noteq> [] \<and> digits_ok r else digits_ok (d # r)))"

datatype exn = ValueError | AttributeError | AssertionError | KeyError

text \<open>
  \<^verbatim>\<open>int(s)\<close> for a token without whitespace: an optional sign, then the digits.
  \<open>Inl ValueError\<close> is the raise, which a token of digits meets when one of them is a
  superscript. The cap of \<^verbatim>\<open>int()\<close> on the number of digits is
  left out: a message is shorter than it.
\<close>

definition int_of_digits :: "string \<Rightarrow> exn + int" where
  "int_of_digits s =
     (if digits_ok s then Inr (int (digits_val (filter (\<lambda>c. c \<noteq> CHR ''_'') s)))
      else Inl ValueError)"

definition py_int :: "string \<Rightarrow> exn + int" where
  "py_int s =
     (case s of
        [] \<Rightarrow> Inl ValueError
      | c # r \<Rightarrow>
          if c = CHR ''+'' then int_of_digits r
          else if c = CHR ''-'' then map_sum id uminus (int_of_digits r)
          else int_of_digits s)"

text \<open>
  \<^verbatim>\<open>s.split(maxsplit=1)\<close>: leading whitespace is skipped, the first token runs up
  to the next whitespace, and what follows the whitespace after it is the second item, to
  the end of the string; an item that would be empty is left out.
\<close>

definition split1 :: "string \<Rightarrow> string list" where
  "split1 s =
     (let s1 = dropWhile isspace_char s in
      if s1 = [] then []
      else
        let tok = takeWhile (\<lambda>c. \<not> isspace_char c) s1;
            rest = dropWhile isspace_char (dropWhile (\<lambda>c. \<not> isspace_char c) s1)
        in if rest = [] then [tok] else [tok, rest])"

text \<open>\<^verbatim>\<open>s.startswith(p)\<close> and \<^verbatim>\<open>sep.join(xs)\<close>.\<close>

definition startswith :: "string \<Rightarrow> string \<Rightarrow> bool" where
  "startswith s p = (take (length p) s = p)"

fun join :: "string \<Rightarrow> string list \<Rightarrow> string" where
  "join sep [] = []"
| "join sep [x] = x"
| "join sep (x # y # r) = x @ sep @ join sep (y # r)"

subsection \<open>The ignore table\<close>

text \<open>
  A row of \<^verbatim>\<open>ignored\<close>: \<^verbatim>\<open>(user_id, quiet, reason)\<close>, in the column order of
  \<^verbatim>\<open>INSERT INTO ignored VALUES (?, ?, ?)\<close>. The table is the list of its rows, and
  every statement acts on it at once: the pool of connections, transactions and commits are
  not modelled.
\<close>

type_synonym row = "int \<times> bool \<times> string option"

type_synonym table = "row list"

datatype sql_error = IntegrityError

text \<open>
  Modelled from the spec: \<^verbatim>\<open>schema.sql\<close> is not among the sources; the spec gives the
  table as \<^verbatim>\<open>ignored(user_id INTEGER PRIMARY KEY, quiet INTEGER, reason TEXT NULL)\<close>.
  An insert whose \<^verbatim>\<open>user_id\<close> is already the key of a row violates the primary key
  and raises \<^verbatim>\<open>sqlite3.IntegrityError\<close>, leaving the table as it was.
\<close>

text \<open>
  An SQLite INTEGER is a signed integer of 64 bits. Binding a Python integer outside this
  range to a statement raises \<^verbatim>\<open>OverflowError\<close>, which none of the handlers
  catches. The three statements below are the statements on integers within the range; the
  raise outside it is not modelled.
\<close>

definition sqlite_integer :: "int \<Rightarrow> bool" where
  "sqlite_integer k = (- (2 ^ 63) \<le> k \<and> k < 2 ^ 63)"

definition sql_insert :: "table \<Rightarrow> row \<Rightarrow> sql_error + table" where
  "sql_insert t r = (if fst r \<in> fst ` set t then Inl IntegrityError else Inr (t @ [r]))"

text \<open>\<^verbatim>\<open>SELECT quiet, reason FROM ignored WHERE user_id = ?\<close>, then \<^verbatim>\<open>fetchone\<close>.\<close>

definition sql_select :: "table \<Rightarrow> int \<Rightarrow> (bool \<times> string option) option" where
  "sql_select t k = map_option snd (find (\<lambda>r. fst r = k) t)"

text \<open>\<^verbatim>\<open>DELETE FROM ignored WHERE user_id = ?\<close>: the table left, and \<^verbatim>\<open>rowcount\<close>.\<close>

definition sql_delete :: "table \<Rightarrow> int \<Rightarrow> table \<times> nat" where
  "sql_delete t k = (filter (\<lambda>r. fst r \<noteq> k) t, length (filter (\<lambda>r. fst r = k) t))"

subsection \<open>Platform data\<close>

text \<open>
  What the handlers read of a \<^verbatim>\<open>discord.User\<close> or \<^verbatim>\<open>discord.Member\<close>:
  \<open>tag\<close> is \<^verbatim>\<open>str(author)\<close>, \<open>nick\<close> is set on guild members only, \<open>avatar_url\<close> is
  \<^verbatim>\<open>author.avatar.url\<close> when there is an avatar, and \<open>dm_closed\<close> says that
  \<^verbatim>\<open>send\<close> to this account raises \<^verbatim>\<open>discord.Forbidden\<close>.
\<close>

record account =
  uid :: int
  is_bot :: bool
  mention :: string
  tag :: string
  nick :: "string option"
  avatar_url :: "string option"
  default_avatar_url :: string
  dm_closed :: bool

text \<open>A guild is the list of its cached members; \<^verbatim>\<open>guild.get_member(id)\<close> looks one up.\<close>

type_synonym guild = "account list"

definition get_member :: "guild \<Rightarrow> int \<Rightarrow> account option" where
  "get_member g k = find (\<lambda>m. uid m = k) g"

text \<open>
  A channel with its id. Only a text channel belongs to a guild, and
  \<^verbatim>\<open>message.guild\<close> is the guild of the message's channel.
\<close>

datatype channel = DMChannel int | TextChannel int guild | OtherChannel int

fun chan_id :: "channel \<Rightarrow> int" where
  "chan_id (DMChannel i) = i"
| "chan_id (TextChannel i g) = i"
| "chan_id (OtherChannel i) = i"

fun chan_guild :: "channel \<Rightarrow> guild option" where
  "chan_guild (TextChannel i g) = Some g"
| "chan_guild c = None"

fun is_dm :: "channel \<Rightarrow> bool" where
  "is_dm (DMChannel i) = True"
| "is_dm c = False"

fun is_text :: "channel \<Rightarrow> bool" where
  "is_text (TextChannel i g) = True"
| "is_text c = False"

text \<open>\<^verbatim>\<open>a == b\<close> on channels: the same class and the same id.\<close>

fun chan_eq :: "channel \<Rightarrow> channel \<Rightarrow> bool" where
  "chan_eq (DMChannel i) (DMChannel j) = (i = j)"
| "chan_eq (TextChannel i g) (TextChannel j h) = (i = j)"
| "chan_eq (OtherChannel i) (OtherChannel j) = (i = j)"
| "chan_eq c d = False"

record attachment =
  a_filename :: string
  a_url :: string
  a_size :: int

record message =
  m_id :: int
  m_author :: account
  m_channel :: channel
  m_content :: string
  m_attachments :: "attachment list"

record embed =
  e_color :: int
  e_description :: string
  e_author :: "(string \<times> string) option"
  e_fields :: "(string \<times> string) list"

text \<open>
  The outbound calls, each with what it is called on: a send to a channel (by id), the edit
  and the deletion of the progress message, a send to a member with the names of the files
  attached, a reaction on a message, the deletion of a message, the download of an
  attachment, the typing indicator on a channel, a change of presence, and closing the client.
\<close>

datatype effect =
    ChannelSend int string "embed option"
  | ProgressEdit string
  | ProgressDelete
  | MemberSend int string "string list"
  | AddReaction int string
  | MessageDelete int
  | Download string
  | ChannelTyping int
  | ChangePresence "string option"
  | ClientClose

subsection \<open>Configuration and state\<close>

record config =
  command_prefix :: string
  channel_id :: int
  post_startup_message :: bool
  spam_messages :: int
  spam_seconds :: int
  anonymous_staff :: bool
  playing :: string

text \<open>
  What the handlers take from outside: the configuration, the channels and guilds the
  client sees, and the library functions whose results the handlers only pass on:
  \<open>gen_color\<close> (seeded \<^verbatim>\<open>random\<close>), \<^verbatim>\<open>discord.utils.escape_markdown\<close>, the
  attachment a sent file comes back as (\<open>rehost\<close>), and the text of the startup message.
\<close>

record env =
  cfg :: config
  channels :: "channel list"
  guilds :: "guild list"
  gen_color :: "int \<Rightarrow> int"
  escape_markdown :: "string \<Rightarrow> string"
  rehost :: "attachment \<Rightarrow> attachment"
  startup_message :: string

text \<open>\<^verbatim>\<open>args[0]\<close> after line 180: an integer when the token was all digits.\<close>

datatype token = IntTok int | StrTok string

text \<open>
  The fields of the client and the two module-level dictionaries. \<open>channel\<close> is
  \<open>None\<close> as long as \<^verbatim>\<open>self.channel\<close> has not been assigned; reading it then raises
  \<^verbatim>\<open>AttributeError\<close>.
\<close>

record state =
  already_ready :: bool
  last_id :: "int option"
  channel :: "channel option"
  ignored :: table
  anti_spam_check :: "int \<rightharpoonup> int"
  anti_duplicate_replies :: "token \<rightharpoonup> bool"

text \<open>
  A handler that reaches \<^verbatim>\<open>asyncio.sleep\<close>, or the send of the startup message in
  \<^verbatim>\<open>on_ready\<close>, is suspended there, and other handlers run before it goes on. The
  task is what is left to run: line 169 for the user, line 236 for the token, line 108.
  All other awaits are taken as completing without another handler running in between.
\<close>

datatype task = SpamDecrement int | DuplicateReset token | ReadyFinish

datatype ending = Returned | Suspended task | Raised exn

type_synonym result = "state \<times> effect list \<times> ending"

text \<open>The state \<^verbatim>\<open>setup_hook\<close> leaves, on a table \<open>t\<close> read from the database file.\<close>

definition setup_hook :: "table \<Rightarrow> state" where
  "setup_hook t =
     \<lparr>already_ready = False, last_id = None, channel = None, ignored = t,
      anti_spam_check = Map.empty, anti_duplicate_replies = Map.empty\<rparr>"

subsection \<open>The ignore store (lines 327 to 353)\<close>

definition is_ignored :: "state \<Rightarrow> int \<Rightarrow> (bool \<times> string option) option" where
  "is_ignored st k = sql_select (ignored st) k"

definition add_ignore :: "state \<Rightarrow> int \<Rightarrow> string option \<Rightarrow> bool \<Rightarrow> state \<times> bool" where
  "add_ignore st k reason is_quiet =
     (case sql_insert (ignored st) (k, is_quiet, reason) of
        Inr t \<Rightarrow> (st\<lparr>ignored := t\<rparr>, True)
      | Inl IntegrityError \<Rightarrow> (st, False))"

definition remove_ignore :: "state \<Rightarrow> int \<Rightarrow> state \<times> nat" where
  "remove_ignore st k = (case sql_delete (ignored st) k of (t, n) \<Rightarrow> (st\<lparr>ignored := t\<rparr>, n))"

subsection \<open>Attachments (lines 407 to 461)\<close>

definition SIZE_LIMIT :: int where
  "SIZE_LIMIT = 0x800000"

definition SIZE_DIFF :: int where
  "SIZE_DIFF = 0x800"

definition newline :: string where
  "newline = [CHR 0x0A]"

text \<open>The bullet and the check mark, as their UTF-8 bytes.\<close>

definition bullet :: string where
  "bullet = [CHR 0xE2, CHR 0x80, CHR 0xA2]"

definition check_mark :: string where
  "check_mark = [CHR 0xE2, CHR 0x9C, CHR 0x85]"

text \<open>
  The two lines under the error and warning lines. Both sizes are constants, and
  \<^verbatim>\<open>:.02f\<close> of either quotient prints \<^verbatim>\<open>8.00\<close>.
\<close>

definition limits_text :: string where
  "limits_text =
     newline @ ''Limit: '' @ str_int SIZE_LIMIT @ '' bytes (8.00 MiB)'' @
     newline @ ''Recommended Maximum: '' @ str_int (SIZE_LIMIT - SIZE_DIFF) @
     '' bytes (8.00 MiB)''"

definition error_line :: "env \<Rightarrow> attachment \<Rightarrow> string" where
  "error_line e a =
     ''`'' @ escape_markdown e (a_filename a) @ ''` is too large to send in a direct message.''"

definition warning_line :: "env \<Rightarrow> attachment \<Rightarrow> string" where
  "warning_line e a =
     ''`'' @ escape_markdown e (a_filename a) @
     ''` is very close to the file size limit of the destination. It may fail to send.''"

definition too_large :: "attachment \<Rightarrow> bool" where
  "too_large a = (a_size a > SIZE_LIMIT)"

definition near_limit :: "attachment \<Rightarrow> bool" where
  "near_limit a = (\<not> a_size a > SIZE_LIMIT \<and> a_size a > SIZE_LIMIT - 0x1000)"

text \<open>The loop of lines 456 to 460, \<open>idx\<close> counting from its second argument.\<close>

fun download_all :: "nat \<Rightarrow> nat \<Rightarrow> attachment list \<Rightarrow> effect list" where
  "download_all idx count [] = []"
| "download_all idx count (a # as) =
     Download (a_filename a) #
     ProgressEdit (''Downloading attachments... '' @ str_nat idx @ ''/'' @ str_nat count) #
     download_all (Suc idx) count as"

text \<open>
  The calls made, and either the raise or the files staged (by name, in order) together
  with whether there is a progress message. \<open>c\<close> is \<^verbatim>\<open>self.channel\<close>.
\<close>

definition handle_attachments ::
  "env \<Rightarrow> channel \<Rightarrow> message \<Rightarrow> effect list \<times> (exn + string list \<times> bool)" where
  "handle_attachments e c msg =
     (let atts = m_attachments msg in
      if atts = [] then ([], Inr ([], False))
      else
        let error_messages = map (error_line e) (filter too_large atts);
            warning_messages = map (warning_line e) (filter near_limit atts)
        in
          if error_messages \<noteq> [] then
            ([ChannelSend (chan_id (m_channel msg)) (join newline error_messages @ limits_text) None],
             Inl ValueError)
          else
            ((if warning_messages \<noteq> [] then
                [ChannelSend (chan_id (m_channel msg))
                   (join newline warning_messages @ limits_text) None]
              else []) @
             ChannelSend (chan_id c)
               (''Downloading attachments... 0/'' @ str_nat (length atts)) None #
             download_all 1 (length atts) atts,
             Inr (map a_filename atts, True)))"

definition attachment_links :: "attachment list \<Rightarrow> string" where
  "attachment_links atts =
     bullet @ '' '' @
     join (newline @ bullet @ '' '')
       (map (\<lambda>a. ''['' @ a_filename a @ ''](''  @ a_url a @ '') ('' @ str_int (a_size a) @
                  '' bytes)'') atts)"

subsection \<open>Staff replies (lines 355 to 405)\<close>

text \<open>
  In the handlers below \<open>c\<close> is \<^verbatim>\<open>self.channel\<close>: they run only from the branch of
  \<^verbatim>\<open>on_message\<close> that has compared it with the channel of the message.
\<close>

definition handle_staff_reply ::
  "env \<Rightarrow> state \<Rightarrow> channel \<Rightarrow> message \<Rightarrow> int \<Rightarrow> string \<Rightarrow> result" where
  "handle_staff_reply e st c msg user_id message_content =
     (case chan_guild (m_channel msg) of
        None \<Rightarrow> (st, [], Raised AssertionError)
      | Some g \<Rightarrow>
     (case get_member g user_id of
        None \<Rightarrow> (st, [ChannelSend (chan_id c) ''Failed to find member.'' None], Returned)
      | Some member \<Rightarrow>
          if is_bot member then
            (st, [ChannelSend (chan_id c) ''You can't send messages to bots.'' None], Returned)
          else
            let author = m_author msg;
                to_send = (if anonymous_staff (cfg e) then ''Staff reply: ''
                           else mention author @ '': '') @ message_content
            in
            (case handle_attachments e c msg of
               (effs, Inl err) \<Rightarrow> (st, effs, Returned)
             | (effs, Inr (attachments, progress_msg)) \<Rightarrow>
                 let effs1 = effs @
                       (if progress_msg then
                          [ProgressEdit (''Sending message with '' @
                             str_nat (length attachments) @ '' attachments...'')]
                        else [])
                 in
                 if dm_closed member then
                   (st, effs1 @
                      [ChannelSend (chan_id c)
                         (mention author @ '' '' @ mention member @ '' has disabled DMs'') None],
                    Returned)
                 else
                   let staff_attachments = map (rehost e) (m_attachments msg);
                       header_message =
                         mention author @ '' replying to '' @ str_int (uid member) @ '' '' @
                         mention member @
                         (if is_ignored st (uid member) \<noteq> None then '' (replies ignored)''
                          else []);
                       emb = \<lparr>e_color = gen_color e user_id, e_description = message_content,
                              e_author = None,
                              e_fields =
                                (if staff_attachments \<noteq> [] then
                                   [(''Attachments'', attachment_links staff_attachments)]
                                 else [])\<rparr>
                   in
                   (st, effs1 @
                      [MemberSend (uid member) to_send attachments,
                       ChannelSend (chan_id c) header_message (Some emb)] @
                      (if progress_msg then [ProgressDelete] else []) @
                      [MessageDelete (m_id msg)],
                    Returned))))"

subsection \<open>Ignore and unignore commands (lines 238 to 315)\<close>

text \<open>\<^verbatim>\<open>if reason:\<close> holds for a reason that is there and not empty.\<close>

definition handle_ignore ::
  "env \<Rightarrow> state \<Rightarrow> channel \<Rightarrow> message \<Rightarrow> string \<Rightarrow> string option \<Rightarrow> bool \<Rightarrow> result" where
  "handle_ignore e st c msg user_id_str reason quiet =
     (case chan_guild (m_channel msg) of
        None \<Rightarrow> (st, [], Raised AssertionError)
      | Some g \<Rightarrow>
     (case py_int user_id_str of
        Inl err \<Rightarrow> (st, [ChannelSend (chan_id c) ''Could not convert to int.'' None], Returned)
      | Inr user_id \<Rightarrow>
          let member = get_member g user_id in
          (case add_ignore st user_id reason quiet of
             (st1, True) \<Rightarrow>
               let to_send = ''Your messages are being ignored by staff.'' @
                     (case reason of
                        Some r \<Rightarrow> if r \<noteq> [] then '' Reason: '' @ r else []
                      | None \<Rightarrow> []);
                   notify =
                     (if \<not> quiet then
                        (case member of
                           Some m \<Rightarrow>
                             if dm_closed m then
                               [ChannelSend (chan_id c)
                                  (mention m @ '' has disabled DMs or is not in a '' @
                                   ''shared server, not sending reason.'') None]
                             else [MemberSend (uid m) to_send []]
                         | None \<Rightarrow>
                             [ChannelSend (chan_id c)
                                ''Failed to find user with ID, not sending reason.'' None])
                      else [])
               in
               (st1, notify @
                  [ChannelSend (chan_id c)
                     (mention (m_author msg) @ '' '' @ str_int user_id @
                      '' is now ignored. Messages from this user will not appear. '' @
                      ''Use `'' @ command_prefix (cfg e) @ ''unignore` to reverse.'') None],
                Returned)
           | (st1, False) \<Rightarrow>
               (st1, [ChannelSend (chan_id c)
                        (mention (m_author msg) @ '' '' @ str_int user_id @
                         '' is already ignored.'') None],
                Returned))))"

text \<open>
  Lines 290 to 306: what is sent before the removal, from the entry read at line 290.
\<close>

definition unignore_notice ::
  "channel \<Rightarrow> (bool \<times> string option) option \<Rightarrow> account option \<Rightarrow> effect list" where
  "unignore_notice c ign member =
     (case ign of
        None \<Rightarrow> []
      | Some (is_quiet, reason) \<Rightarrow>
          if \<not> is_quiet then
            (case member of
               Some m \<Rightarrow>
                 if dm_closed m then
                   [ChannelSend (chan_id c)
                      (mention m @ '' has disabled DMs or is not in '' @
                       ''a shared server, not sending notification.'') None]
                 else
                   [MemberSend (uid m) ''Your messages are no longer being ignored by staff.'' []]
             | None \<Rightarrow>
                 [ChannelSend (chan_id c)
                    ''Failed to find user with ID, not sending notification.'' None])
          else [])"

definition handle_unignore :: "env \<Rightarrow> state \<Rightarrow> channel \<Rightarrow> message \<Rightarrow> string \<Rightarrow> result" where
  "handle_unignore e st c msg user_id_str =
     (case py_int user_id_str of
        Inl err \<Rightarrow> (st, [ChannelSend (chan_id c) ''Could not convert to int.'' None], Returned)
      | Inr user_id \<Rightarrow>
     (case chan_guild (m_channel msg) of
        None \<Rightarrow> (st, [], Raised AttributeError)
      | Some g \<Rightarrow>
          let member = get_member g user_id;
              ign = is_ignored st user_id;
              notice = unignore_notice c ign member
          in
          (case remove_ignore st user_id of
             (st1, n) \<Rightarrow>
               if n \<noteq> 0 then
                 (st1, notice @
                    [ChannelSend (chan_id c)
                       (mention (m_author msg) @ '' '' @ str_int user_id @
                        '' is no longer ignored. Messages from this user will appear '' @
                        ''again. Use `'' @ command_prefix (cfg e) @ ''ignore` to reverse.'') None],
                  Returned)
               else
                 (st1, notice @
                    [ChannelSend (chan_id c)
                       (mention (m_author msg) @ '' '' @ str_int user_id @
                        '' is not ignored.'') None],
                  Returned))))"

subsection \<open>Typing and readiness (lines 88 to 108 and 317 to 325)\<close>

definition on_typing :: "env \<Rightarrow> state \<Rightarrow> channel \<Rightarrow> account \<Rightarrow> result" where
  "on_typing e st ch user =
     (if is_dm ch then
        if is_ignored st (uid user) = None then
          (case channel st of
             None \<Rightarrow> (st, [], Raised AttributeError)
           | Some c \<Rightarrow> (st, [ChannelTyping (chan_id c)], Returned))
        else (st, [], Returned)
      else (st, [], Returned))"

text \<open>\<^verbatim>\<open>self.get_channel(id)\<close>: the channel of that id among those the client sees.\<close>

definition get_channel :: "env \<Rightarrow> int \<Rightarrow> channel option" where
  "get_channel e k = find (\<lambda>c. chan_id c = k) (channels e)"

text \<open>
  \<^verbatim>\<open>on_ready\<close> up to the send of the startup message; with no startup message to
  post it runs to its end. What is printed is left out.
\<close>

definition on_ready :: "env \<Rightarrow> state \<Rightarrow> result" where
  "on_ready e st =
     (if already_ready st then (st, [], Returned)
      else
        (case get_channel e (channel_id (cfg e)) of
           None \<Rightarrow> (st, [ClientClose], Returned)
         | Some ch \<Rightarrow>
             if \<not> is_text ch then (st, [ClientClose], Returned)
             else if post_startup_message (cfg e) then
               (st\<lparr>channel := Some ch\<rparr>,
                [ChannelSend (chan_id ch) (startup_message e) None], Suspended ReadyFinish)
             else (st\<lparr>channel := Some ch, already_ready := True\<rparr>, [], Returned)))"

subsection \<open>Messages (lines 110 to 236)\<close>

text \<open>
  The branch for a direct message, lines 118 to 169. A direct message is written by a
  \<^verbatim>\<open>discord.User\<close>, so \<^verbatim>\<open>author\<close> is a member exactly when line 138
  rebound it to one; the loop of line 135 looks at the first guild only.
\<close>

definition on_message_dm :: "env \<Rightarrow> state \<Rightarrow> message \<Rightarrow> result" where
  "on_message_dm e st msg =
     (let author = m_author msg in
      if is_ignored st (uid author) \<noteq> None then (st, [], Returned)
      else
        let count = (case anti_spam_check st (uid author) of None \<Rightarrow> 0 | Some n \<Rightarrow> n) + 1;
            st1 = st\<lparr>anti_spam_check := (anti_spam_check st)(uid author \<mapsto> count)\<rparr>
        in
        if count \<ge> spam_messages (cfg e) then
          (case add_ignore st1 (uid author) (Some ''Automatic anti-spam ignore'') False of
             (st2, added) \<Rightarrow>
               (case channel st2 of
                  None \<Rightarrow> (st2, [], Raised AttributeError)
                | Some c \<Rightarrow>
                    (st2\<lparr>anti_spam_check := (anti_spam_check st2)(uid author \<mapsto> 0)\<rparr>,
                     [ChannelSend (chan_id c)
                        (str_int (uid author) @ '' '' @ mention author @
                         '' auto-ignored due to spam. Use `'' @ command_prefix (cfg e) @
                         ''unignore` to reverse.'') None],
                     Returned)))
        else
          let found = (case guilds e of [] \<Rightarrow> None | server # _ \<Rightarrow> get_member server (uid author));
              author1 = (case found of Some member \<Rightarrow> member | None \<Rightarrow> author);
              author_name =
                (case found of
                   Some member \<Rightarrow>
                     (case nick member of
                        Some n \<Rightarrow> if n \<noteq> [] then n @ '' ('' @ tag member @ '')'' else tag member
                      | None \<Rightarrow> tag member)
                 | None \<Rightarrow> tag author);
              icon_url =
                (case avatar_url author1 of Some u \<Rightarrow> u | None \<Rightarrow> default_avatar_url author1);
              emb = \<lparr>e_color = gen_color e (uid author1), e_description = m_content msg,
                     e_author = Some (author_name, icon_url),
                     e_fields =
                       (if m_attachments msg \<noteq> [] then
                          [(''Attachments'', attachment_links (m_attachments msg))]
                        else [])\<rparr>
          in
          (case channel st1 of
             None \<Rightarrow> (st1, [], Raised AttributeError)
           | Some c \<Rightarrow>
               (st1\<lparr>last_id := Some (uid author1)\<rparr>,
                [ChannelSend (chan_id c) (str_int (uid author1)) (Some emb),
                 AddReaction (m_id msg) check_mark],
                Suspended (SpamDecrement (uid author1)))))"

text \<open>
  How a case of the \<^verbatim>\<open>match\<close> statement leaves it: on to line 235, by a
  \<^verbatim>\<open>return\<close> of \<^verbatim>\<open>on_message\<close>, or by a raise.
\<close>

datatype flow = Next | Return | Raise exn

fun after_call :: "result \<Rightarrow> state \<times> effect list \<times> flow" where
  "after_call (st, effs, Raised err) = (st, effs, Raise err)"
| "after_call (st, effs, en) = (st, effs, Next)"

text \<open>\<^verbatim>\<open>if self.last_id:\<close> holds for an id that is there and not 0.\<close>

definition last_contact :: "state \<Rightarrow> int option" where
  "last_contact st = (case last_id st of Some k \<Rightarrow> if k \<noteq> 0 then Some k else None | None \<Rightarrow> None)"

definition no_last_message :: string where
  "no_last_message = ''There is no last message in the current session.''"

text \<open>
  The \<^verbatim>\<open>match\<close> of lines 181 to 234 on \<^verbatim>\<open>args\<close>, given as its first item and the
  items after it (none or one, as \<^verbatim>\<open>maxsplit=1\<close> leaves them), the cases in the
  order of the source.
\<close>

definition dispatch ::
  "env \<Rightarrow> state \<Rightarrow> channel \<Rightarrow> message \<Rightarrow> token \<Rightarrow> string list \<Rightarrow> state \<times> effect list \<times> flow" where
  "dispatch e st c msg tok rest =
     (if tok \<in> {StrTok ''ignore'', StrTok ''qignore'', StrTok ''unignore''} \<and> rest = [] then
        (st, [ChannelSend (chan_id c) ''Did you forget to enter an ID?'' None], Next)
      else if tok \<in> {StrTok ''ignore'', StrTok ''qignore''} \<and> length rest = 1 then
        (case split1 (hd rest) of
           [] \<Rightarrow> (st, [], Raise ValueError)
         | user_id_str # reason \<Rightarrow>
             after_call
               (handle_ignore e st c msg user_id_str
                  (case reason of [] \<Rightarrow> None | r # _ \<Rightarrow> Some r) (tok = StrTok ''qignore'')))
      else if tok = StrTok ''unignore'' \<and> length rest = 1 then
        (case split1 (hd rest) of
           [] \<Rightarrow> (st, [], Raise ValueError)
         | user_id_str # _ \<Rightarrow> after_call (handle_unignore e st c msg user_id_str))
      else
        (case tok of
           IntTok user_id \<Rightarrow>
             if rest = [] \<and> m_attachments msg = [] then
               (st, [ChannelSend (chan_id c) ''Did you forget to enter a message?'' None], Return)
             else
               after_call
                 (handle_staff_reply e st c msg user_id (case rest of [] \<Rightarrow> [] | r # _ \<Rightarrow> r))
         | StrTok w \<Rightarrow>
             if w = ''r'' then
               (case last_contact st of
                  Some k \<Rightarrow>
                    if rest = [] \<and> m_attachments msg = [] then
                      (st, [ChannelSend (chan_id c) ''Did you forget to enter a message?'' None],
                       Return)
                    else
                      after_call
                        (handle_staff_reply e st c msg k (case rest of [] \<Rightarrow> [] | r # _ \<Rightarrow> r))
                | None \<Rightarrow> (st, [ChannelSend (chan_id c) no_last_message None], Return))
             else if w = ''m'' then
               (case last_contact st of
                  Some k \<Rightarrow>
                    (st, [ChannelSend (chan_id c) (str_int k @ '' <@!'' @ str_int k @ ''>'') None],
                     Next)
                | None \<Rightarrow> (st, [ChannelSend (chan_id c) no_last_message None], Return))
             else if w = ''fixgame'' then
               (st, [ChangePresence None, ChangePresence (Some (playing (cfg e))),
                     ChannelSend (chan_id c) ''Game presence re-set.'' None], Next)
             else (st, [], Next)))"

text \<open>
  The branch for a message in the coordination channel, lines 172 to 236, up to the sleep
  of line 235.
\<close>

definition on_message_command :: "env \<Rightarrow> state \<Rightarrow> channel \<Rightarrow> message \<Rightarrow> result" where
  "on_message_command e st c msg =
     (if \<not> startswith (m_content msg) (command_prefix (cfg e)) then (st, [], Returned)
      else
        (case split1 (drop (length (command_prefix (cfg e))) (m_content msg)) of
           [] \<Rightarrow> (st, [], Returned)
         | a0 # rest \<Rightarrow>
             (case (if isdigit a0 then map_sum id IntTok (py_int a0) else Inr (StrTok a0)) of
                Inl err \<Rightarrow> (st, [], Raised err)
              | Inr tok \<Rightarrow>
                  (case dispatch e st c msg tok rest of
                     (st1, effs, Next) \<Rightarrow> (st1, effs, Suspended (DuplicateReset tok))
                   | (st1, effs, Return) \<Rightarrow> (st1, effs, Returned)
                   | (st1, effs, Raise err) \<Rightarrow> (st1, effs, Raised err)))))"

definition on_message :: "env \<Rightarrow> state \<Rightarrow> message \<Rightarrow> result" where
  "on_message e st msg =
     (if is_bot (m_author msg) then (st, [], Returned)
      else if \<not> already_ready st then (st, [], Returned)
      else if is_dm (m_channel msg) then on_message_dm e st msg
      else
        (case channel st of
           None \<Rightarrow> (st, [], Raised AttributeError)
         | Some c \<Rightarrow>
             if chan_eq (m_channel msg) c then on_message_command e st c msg
             else (st, [], Returned)))"

text \<open>What a suspended handler does when it goes on: line 169, line 236, line 108.\<close>

fun resume :: "state \<Rightarrow> task \<Rightarrow> result" where
  "resume st (SpamDecrement u) =
     (case anti_spam_check st u of
        None \<Rightarrow> (st, [], Raised KeyError)
      | Some n \<Rightarrow> (st\<lparr>anti_spam_check := (anti_spam_check st)(u \<mapsto> n - 1)\<rparr>, [], Returned))"
| "resume st (DuplicateReset tok) =
     (st\<lparr>anti_duplicate_replies := (anti_duplicate_replies st)(tok \<mapsto> False)\<rparr>, [], Returned)"
| "resume st ReadyFinish = (st\<lparr>already_ready := True\<rparr>, [], Returned)"

subsection \<open>The event loop\<close>

text \<open>
  The loop hands one event at a time to its handler; a suspended handler joins the tasks
  that wait, and waking the task at a position lets it run on. The client, the waiting
  tasks and the calls made so far:
\<close>

datatype event = Ready | Message message | Typing channel account | Wake nat

record world =
  w_state :: state
  w_tasks :: "task list"
  w_log :: "effect list"

fun absorb :: "world \<Rightarrow> result \<Rightarrow> world" where
  "absorb w (st, effs, en) =
     \<lparr>w_state = st,
      w_tasks = w_tasks w @ (case en of Suspended t \<Rightarrow> [t] | _ \<Rightarrow> []),
      w_log = w_log w @ effs\<rparr>"

fun step :: "env \<Rightarrow> world \<Rightarrow> event \<Rightarrow> world" where
  "step e w Ready = absorb w (on_ready e (w_state w))"
| "step e w (Message msg) = absorb w (on_message e (w_state w) msg)"
| "step e w (Typing ch user) = absorb w (on_typing e (w_state w) ch user)"
| "step e w (Wake i) =
     (if i < length (w_tasks w) then
        absorb (w\<lparr>w_tasks := take i (w_tasks w) @ drop (Suc i) (w_tasks w)\<rparr>)
          (resume (w_state w) (w_tasks w ! i))
      else w)"

definition run :: "env \<Rightarrow> world \<Rightarrow> event list \<Rightarrow> world" where
  "run e w evs = foldl (step e) w evs"

definition start :: "table \<Rightarrow> world" where
  "start t = \<lparr>w_state = setup_hook t, w_tasks = [], w_log = []\<rparr>"

subsection \<open>Counters, waiting decrements and runs\<close>

text \<open>The value of a user's spam counter; a user without a key counts as 0.\<close>

definition spam_count :: "state \<Rightarrow> int \<Rightarrow> int" where
  "spam_count st u = (case anti_spam_check st u of None \<Rightarrow> 0 | Some n \<Rightarrow> n)"







subsection \<open>A small server\<close>

text \<open>
  Three accounts in one guild, whose text channel 5 is the coordination channel; the third
  account refuses direct messages. Two messages trip the limiter.
\<close>

definition alice :: account where
  "alice = \<lparr>uid = 111, is_bot = False, mention = ''<@111>'', tag = ''alice'', nick = None,
            avatar_url = None, default_avatar_url = ''https://cdn.example/0.png'',
            dm_closed = False\<rparr>"

definition staff :: account where
  "staff = \<lparr>uid = 900, is_bot = False, mention = ''<@900>'', tag = ''staff'', nick = Some ''Mod'',
            avatar_url = None, default_avatar_url = ''https://cdn.example/1.png'',
            dm_closed = False\<rparr>"

definition carol :: account where
  "carol = \<lparr>uid = 222, is_bot = False, mention = ''<@222>'', tag = ''carol'', nick = None,
            avatar_url = None, default_avatar_url = ''https://cdn.example/2.png'',
            dm_closed = True\<rparr>"

definition robot :: account where
  "robot = \<lparr>uid = 333, is_bot = True, mention = ''<@333>'', tag = ''robot'', nick = None,
            avatar_url = None, default_avatar_url = ''https://cdn.example/3.png'',
            dm_closed = False\<rparr>"

definition home :: guild where
  "home = [staff, alice, carol]"

definition coord :: channel where
  "coord = TextChannel 5 home"

definition env0 :: env where
  "env0 = \<lparr>cfg = \<lparr>command_prefix = ''!'', channel_id = 5, post_startup_message = True,
                  spam_messages = 2, spam_seconds = 10, anonymous_staff = False,
                  playing = ''DM to contact staff''\<rparr>,
            channels = [coord], guilds = [home], gen_color = (\<lambda>k. k mod 16777216),
            escape_markdown = (\<lambda>s. s), rehost = (\<lambda>a. a),
            startup_message = ''ModMail is now ready.''\<rparr>"

definition ready0 :: state where
  "ready0 = \<lparr>already_ready = True, last_id = None, channel = Some coord, ignored = [],
              anti_spam_check = Map.empty, anti_duplicate_replies = Map.empty\<rparr>"

text \<open>A direct message without attachments, and a message in the coordination channel.\<close>

definition dm :: "account \<Rightarrow> string \<Rightarrow> message" where
  "dm a body = \<lparr>m_id = 1, m_author = a, m_channel = DMChannel 70, m_content = body,
               m_attachments = []\<rparr>"

definition command :: "string \<Rightarrow> attachment list \<Rightarrow> message" where
  "command body atts = \<lparr>m_id = 2, m_author = staff, m_channel = coord, m_content = body,
                        m_attachments = atts\<rparr>"

definition file_of_size :: "string \<Rightarrow> int \<Rightarrow> attachment" where
  "file_of_size name n = \<lparr>a_filename = name, a_url = ''https://cdn.example/'' @ name, a_size = n\<rparr>"

section \<open>Properties\<close>

subsection \<open>The ignore store\<close>

lemma sql_select_None: "sql_select t k = None \<longleftrightarrow> k \<notin> fst ` set t"
  by (force simp: sql_select_def find_None_iff)

lemma sql_select_append:
  "sql_select (t @ [(k, v)]) j =
     (case sql_select t j of Some x \<Rightarrow> Some x | None \<Rightarrow> if j = k then Some v else None)"
  by (induction t) (auto simp: sql_select_def)

text \<open>
  C2. For a user id within the range of an SQLite INTEGER (outside it the insert raises
  \<^verbatim>\<open>OverflowError\<close>) and without an entry, \<^verbatim>\<open>add_ignore\<close> returns true and
  appends the row, so that the entry reads back with the quiet flag and the reason given; a
  second \<^verbatim>\<open>add_ignore\<close> right after it, whatever reason and flag it carries, returns
  false and leaves the state as the first call left it. The refusal comes from the insert
  into the table: \<^verbatim>\<open>add_ignore\<close> does not read the table first.
\<close>

theorem add_ignore_twice:
  assumes "sqlite_integer k" and "is_ignored st k = None"
  shows "add_ignore st k r q = (st\<lparr>ignored := ignored st @ [(k, q, r)]\<rparr>, True)
       \<and> is_ignored (fst (add_ignore st k r q)) k = Some (q, r)
       \<and> add_ignore (fst (add_ignore st k r q)) k r' q' = (fst (add_ignore st k r q), False)"
proof -
  from assms(2) have fresh: "k \<notin> fst ` set (ignored st)"
    by (simp add: is_ignored_def sql_select_None)
  then have first: "add_ignore st k r q = (st\<lparr>ignored := ignored st @ [(k, q, r)]\<rparr>, True)"
    by (simp add: add_ignore_def sql_insert_def)
  from assms(2) have stored:
    "is_ignored (st\<lparr>ignored := ignored st @ [(k, q, r)]\<rparr>) k = Some (q, r)"
    by (simp add: is_ignored_def sql_select_append)
  have second: "add_ignore (st\<lparr>ignored := ignored st @ [(k, q, r)]\<rparr>) k r' q'
      = (st\<lparr>ignored := ignored st @ [(k, q, r)]\<rparr>, False)"
    by (simp add: add_ignore_def sql_insert_def)
  from first stored second show ?thesis by simp
qed

theorem add_ignore_twice_witness:
  "sqlite_integer 111
   \<and> is_ignored (setup_hook []) 111 = None
   \<and> add_ignore (setup_hook []) 111 (Some ''spam'') True
       = ((setup_hook [])\<lparr>ignored := [(111, True, Some ''spam'')]\<rparr>, True)
   \<and> is_ignored (fst (add_ignore (setup_hook []) 111 (Some ''spam'') True)) 111
       = Some (True, Some ''spam'')
   \<and> add_ignore (fst (add_ignore (setup_hook []) 111 (Some ''spam'') True)) 111 None False
       = (fst (add_ignore (setup_hook []) 111 (Some ''spam'') True), False)"
proof -
  have h0: "sqlite_integer 111" by (simp add: sqlite_integer_def)
  have h: "is_ignored (setup_hook []) 111 = None"
    by (simp add: is_ignored_def sql_select_def setup_hook_def)
  from add_ignore_twice [OF h0 h, of "Some ''spam''" True None False] h0 h show ?thesis
    by (simp add: setup_hook_def is_ignored_def sql_select_def add_ignore_def sql_insert_def)
qed

subsection \<open>Direct messages\<close>

lemma on_message_dm_ignored:
  "is_ignored st (uid (m_author msg)) \<noteq> None \<Longrightarrow> on_message_dm e st msg = (st, [], Returned)"
  by (simp add: on_message_dm_def)

text \<open>
  C1. A direct message whose author has an entry in the ignore table is dropped whole:
  \<^verbatim>\<open>on_message\<close> returns with the state as it was (so the spam counters and
  \<^verbatim>\<open>last_id\<close> are untouched) and without a single outbound call (no post to the
  coordination channel, no reaction).
\<close>

theorem ignored_dm_dropped:
  assumes "is_dm (m_channel msg)" and "is_ignored st (uid (m_author msg)) \<noteq> None"
  shows "on_message e st msg = (st, [], Returned)"
  using assms by (simp add: on_message_def on_message_dm_ignored)

theorem ignored_dm_dropped_witness:
  "is_dm (m_channel (dm alice ''hello''))
   \<and> is_ignored (ready0\<lparr>ignored := [(111, False, None)]\<rparr>) (uid (m_author (dm alice ''hello''))) \<noteq> None
   \<and> on_message env0 (ready0\<lparr>ignored := [(111, False, None)]\<rparr>) (dm alice ''hello'')
       = (ready0\<lparr>ignored := [(111, False, None)]\<rparr>, [], Returned)"
proof -
  have h1: "is_dm (m_channel (dm alice ''hello''))" by (simp add: dm_def)
  have h2: "is_ignored (ready0\<lparr>ignored := [(111, False, None)]\<rparr>) (uid (m_author (dm alice ''hello'')))
      \<noteq> None"
    by (simp add: is_ignored_def sql_select_def dm_def alice_def)
  from ignored_dm_dropped [OF h1 h2, of env0] h1 h2 show ?thesis by simp
qed

text \<open>
  C10. A message written by a bot account, this client's own or any other, makes
  \<^verbatim>\<open>on_message\<close> return at once, in every channel and every state: the state is
  unchanged and no call is made, so no relay, no counter change and no command happens.
\<close>

theorem bot_author_returns:
  assumes "is_bot (m_author msg)"
  shows "on_message e st msg = (st, [], Returned)"
  using assms by (simp add: on_message_def)

theorem bot_author_returns_witness:
  "is_bot (m_author ((command ''!ignore 111'' [])\<lparr>m_author := robot\<rparr>))
   \<and> on_message env0 ready0 ((command ''!ignore 111'' [])\<lparr>m_author := robot\<rparr>)
       = (ready0, [], Returned)"
proof -
  have h: "is_bot (m_author ((command ''!ignore 111'' [])\<lparr>m_author := robot\<rparr>))"
    by (simp add: robot_def)
  from bot_author_returns [OF h, of env0 ready0] h show ?thesis by simp
qed

lemma on_message_dm_trip:
  assumes "is_ignored st (uid (m_author msg)) = None" and "channel st = Some c"
    and "spam_messages (cfg e) \<le> spam_count st (uid (m_author msg)) + 1"
  shows "on_message_dm e st msg =
           (st\<lparr>anti_spam_check := (anti_spam_check st)(uid (m_author msg) \<mapsto> 0),
               ignored := ignored st @
                 [(uid (m_author msg), False, Some ''Automatic anti-spam ignore'')]\<rparr>,
            [ChannelSend (chan_id c)
               (str_int (uid (m_author msg)) @ '' '' @ mention (m_author msg) @
                '' auto-ignored due to spam. Use `'' @ command_prefix (cfg e) @
                ''unignore` to reverse.'') None],
            Returned)"
proof -
  from assms(1) have "uid (m_author msg) \<notin> fst ` set (ignored st)"
    by (simp add: is_ignored_def sql_select_None)
  with assms show ?thesis
    by (simp add: on_message_dm_def add_ignore_def sql_insert_def spam_count_def Let_def)
qed

text \<open>
  C3. The client is ready and its channel is bound. When a direct message of a user who is
  neither a bot nor ignored brings the user's counter, after the increment, to the
  configured number of messages or above, \<^verbatim>\<open>on_message\<close> adds exactly one row
  for the user to the ignore table (not quiet, with the reason
  \<^verbatim>\<open>Automatic anti-spam ignore\<close>), sets the user's counter to 0, makes exactly one call,
  the notice to the coordination channel, and returns: the message is not relayed, no
  reaction is added and \<^verbatim>\<open>last_id\<close> stays.
\<close>

theorem spam_trip:
  assumes "\<not> is_bot (m_author msg)" and "already_ready st" and "is_dm (m_channel msg)"
    and "is_ignored st (uid (m_author msg)) = None"
    and "channel st = Some c"
    and "spam_messages (cfg e) \<le> spam_count st (uid (m_author msg)) + 1"
  shows "on_message e st msg =
           (st\<lparr>anti_spam_check := (anti_spam_check st)(uid (m_author msg) \<mapsto> 0),
               ignored := ignored st @
                 [(uid (m_author msg), False, Some ''Automatic anti-spam ignore'')]\<rparr>,
            [ChannelSend (chan_id c)
               (str_int (uid (m_author msg)) @ '' '' @ mention (m_author msg) @
                '' auto-ignored due to spam. Use `'' @ command_prefix (cfg e) @
                ''unignore` to reverse.'') None],
            Returned)"
  using assms(1-3) on_message_dm_trip [OF assms(4-6)] by (simp add: on_message_def)

theorem spam_trip_witness:
  "\<not> is_bot (m_author (dm alice ''hi''))
   \<and> already_ready (ready0\<lparr>anti_spam_check := [111 \<mapsto> 1]\<rparr>)
   \<and> is_dm (m_channel (dm alice ''hi''))
   \<and> is_ignored (ready0\<lparr>anti_spam_check := [111 \<mapsto> 1]\<rparr>) (uid (m_author (dm alice ''hi''))) = None
   \<and> channel (ready0\<lparr>anti_spam_check := [111 \<mapsto> 1]\<rparr>) = Some coord
   \<and> spam_messages (cfg env0)
       \<le> spam_count (ready0\<lparr>anti_spam_check := [111 \<mapsto> 1]\<rparr>) (uid (m_author (dm alice ''hi''))) + 1
   \<and> on_message env0 (ready0\<lparr>anti_spam_check := [111 \<mapsto> 1]\<rparr>) (dm alice ''hi'') =
       (ready0\<lparr>anti_spam_check := [111 \<mapsto> 0],
               ignored := [(111, False, Some ''Automatic anti-spam ignore'')]\<rparr>,
        [ChannelSend 5
           (str_int 111 @ '' <@111> auto-ignored due to spam. Use `!unignore` to reverse.'')
           None],
        Returned)"
proof -
  let ?st = "ready0\<lparr>anti_spam_check := [111 \<mapsto> 1]\<rparr>"
  let ?m = "dm alice ''hi''"
  have h1: "\<not> is_bot (m_author ?m)" by (simp add: dm_def alice_def)
  have h2: "already_ready ?st" by (simp add: ready0_def)
  have h3: "is_dm (m_channel ?m)" by (simp add: dm_def)
  have h4: "is_ignored ?st (uid (m_author ?m)) = None"
    by (simp add: is_ignored_def sql_select_def ready0_def)
  have h5: "channel ?st = Some coord" by (simp add: ready0_def)
  have h6: "spam_messages (cfg env0) \<le> spam_count ?st (uid (m_author ?m)) + 1"
    by (simp add: env0_def spam_count_def dm_def alice_def)
  from spam_trip [OF h1 h2 h3 h4 h5 h6] h1 h2 h3 h4 h5 h6 show ?thesis
    by (simp add: dm_def alice_def env0_def ready0_def coord_def)
qed

subsection \<open>Attachments\<close>

lemma too_large_iff: "too_large a \<longleftrightarrow> SIZE_LIMIT + 1 \<le> a_size a"
  unfolding too_large_def by arith

lemma too_large_filter:
  "(filter too_large xs = []) = (\<not> (\<exists>a\<in>set xs. SIZE_LIMIT + 1 \<le> a_size a))"
  by (simp add: filter_empty_conv too_large_iff)

lemma near_limit_filter:
  assumes "\<forall>a\<in>set xs. a_size a \<le> SIZE_LIMIT"
  shows "(filter near_limit xs = []) = (\<not> (\<exists>a\<in>set xs. SIZE_LIMIT - 0x1000 < a_size a))"
proof -
  have "near_limit a \<longleftrightarrow> SIZE_LIMIT - 0x1000 < a_size a" if "a \<in> set xs" for a
    using assms that by (auto simp: near_limit_def)
  then show ?thesis unfolding filter_empty_conv by blast
qed

lemma handle_attachments_reject:
  assumes "\<exists>a\<in>set (m_attachments msg). SIZE_LIMIT + 1 \<le> a_size a"
  shows "handle_attachments e c msg =
     ([ChannelSend (chan_id (m_channel msg))
         (join newline (map (error_line e) (filter too_large (m_attachments msg))) @ limits_text)
         None],
      Inl ValueError)"
proof -
  from assms have "m_attachments msg \<noteq> []" by auto
  with assms show ?thesis
    by (simp add: handle_attachments_def Let_def too_large_filter)
qed

lemma handle_attachments_accept:
  assumes "m_attachments msg \<noteq> []" and "\<forall>a\<in>set (m_attachments msg). a_size a \<le> SIZE_LIMIT"
  shows "handle_attachments e c msg =
     ((if \<exists>a\<in>set (m_attachments msg). SIZE_LIMIT - 0x1000 < a_size a then
         [ChannelSend (chan_id (m_channel msg))
            (join newline (map (warning_line e) (filter near_limit (m_attachments msg))) @
             limits_text) None]
       else []) @
      ChannelSend (chan_id c)
        (''Downloading attachments... 0/'' @ str_nat (length (m_attachments msg))) None #
      download_all 1 (length (m_attachments msg)) (m_attachments msg),
      Inr (map a_filename (m_attachments msg), True))"
proof -
  from assms(2) have "\<not> (\<exists>a\<in>set (m_attachments msg). SIZE_LIMIT + 1 \<le> a_size a)" by auto
  with assms(1) show ?thesis
    by (simp add: handle_attachments_def Let_def too_large_filter near_limit_filter [OF assms(2)]
        del: map_is_Nil_conv)
qed

lemma staff_reply_reject:
  assumes "\<exists>a\<in>set (m_attachments msg). SIZE_LIMIT + 1 \<le> a_size a"
  shows "fst (handle_staff_reply e st c msg k body) = st
       \<and> (\<forall>x\<in>set (fst (snd (handle_staff_reply e st c msg k body))). \<exists>i t. x = ChannelSend i t None)"
  by (simp add: handle_staff_reply_def handle_attachments_reject [OF assms] Let_def
      split: option.split)

lemma staff_reply_accept:
  assumes "m_attachments msg \<noteq> []" and "\<forall>a\<in>set (m_attachments msg). a_size a \<le> SIZE_LIMIT"
    and "chan_guild (m_channel msg) = Some g" and "get_member g k = Some m"
    and "\<not> is_bot m" and "\<not> dm_closed m"
  shows "\<exists>t. MemberSend (uid m) t (map a_filename (m_attachments msg))
           \<in> set (fst (snd (handle_staff_reply e st c msg k body)))"
  using assms(3-6)
  by (auto simp: handle_staff_reply_def Let_def handle_attachments_accept [OF assms(1,2)]
      simp del: map_is_Nil_conv)

text \<open>
  C5. The limit is 0x800000 bytes and it is inclusive. When a message has an attachment of
  more than the limit (the limit plus one byte is enough), \<^verbatim>\<open>handle_attachments\<close> posts
  the error lines and raises, and the staff reply stops there: the state stays, and every
  call made is a plain post to a channel, so nothing is sent to the member and no attachment
  is downloaded, also not those within the limit. When every attachment is at most the
  limit (an attachment of exactly the limit among them), at most one warning is posted
  before the progress message, every attachment is downloaded in order, all files are
  staged, and a staff reply to a member who accepts direct messages sends them.
\<close>

theorem attachment_boundary:
  "SIZE_LIMIT = 0x800000
   \<and> ((\<exists>a\<in>set (m_attachments msg). SIZE_LIMIT + 1 \<le> a_size a) \<longrightarrow>
        snd (handle_attachments e c msg) = Inl ValueError
        \<and> (\<forall>x\<in>set (fst (handle_attachments e c msg)). \<exists>i t. x = ChannelSend i t None)
        \<and> fst (handle_staff_reply e st c msg k body) = st
        \<and> (\<forall>x\<in>set (fst (snd (handle_staff_reply e st c msg k body))).
              \<exists>i t. x = ChannelSend i t None))
   \<and> (m_attachments msg \<noteq> [] \<and> (\<forall>a\<in>set (m_attachments msg). a_size a \<le> SIZE_LIMIT) \<longrightarrow>
        handle_attachments e c msg =
          ((if \<exists>a\<in>set (m_attachments msg). SIZE_LIMIT - 0x1000 < a_size a then
              [ChannelSend (chan_id (m_channel msg))
                 (join newline (map (warning_line e) (filter near_limit (m_attachments msg))) @
                  limits_text) None]
            else []) @
           ChannelSend (chan_id c)
             (''Downloading attachments... 0/'' @ str_nat (length (m_attachments msg))) None #
           download_all 1 (length (m_attachments msg)) (m_attachments msg),
           Inr (map a_filename (m_attachments msg), True))
        \<and> (\<forall>g m. chan_guild (m_channel msg) = Some g \<and> get_member g k = Some m
                  \<and> \<not> is_bot m \<and> \<not> dm_closed m \<longrightarrow>
              (\<exists>t. MemberSend (uid m) t (map a_filename (m_attachments msg))
                     \<in> set (fst (snd (handle_staff_reply e st c msg k body))))))"
proof (intro conjI impI allI)
  show "SIZE_LIMIT = 0x800000" by (simp add: SIZE_LIMIT_def)
next
  assume h: "\<exists>a\<in>set (m_attachments msg). SIZE_LIMIT + 1 \<le> a_size a"
  show "snd (handle_attachments e c msg) = Inl ValueError"
    by (simp add: handle_attachments_reject [OF h])
  show "\<forall>x\<in>set (fst (handle_attachments e c msg)). \<exists>i t. x = ChannelSend i t None"
    by (simp add: handle_attachments_reject [OF h])
  show "fst (handle_staff_reply e st c msg k body) = st"
    using staff_reply_reject [OF h] by simp
  show "\<forall>x\<in>set (fst (snd (handle_staff_reply e st c msg k body))). \<exists>i t. x = ChannelSend i t None"
    using staff_reply_reject [OF h] by simp
next
  assume h: "m_attachments msg \<noteq> [] \<and> (\<forall>a\<in>set (m_attachments msg). a_size a \<le> SIZE_LIMIT)"
  then have h1: "m_attachments msg \<noteq> []"
    and h2: "\<forall>a\<in>set (m_attachments msg). a_size a \<le> SIZE_LIMIT" by simp_all
  show "handle_attachments e c msg =
          ((if \<exists>a\<in>set (m_attachments msg). SIZE_LIMIT - 0x1000 < a_size a then
              [ChannelSend (chan_id (m_channel msg))
                 (join newline (map (warning_line e) (filter near_limit (m_attachments msg))) @
                  limits_text) None]
            else []) @
           ChannelSend (chan_id c)
             (''Downloading attachments... 0/'' @ str_nat (length (m_attachments msg))) None #
           download_all 1 (length (m_attachments msg)) (m_attachments msg),
           Inr (map a_filename (m_attachments msg), True))"
    by (rule handle_attachments_accept [OF h1 h2])
  fix g m
  assume "chan_guild (m_channel msg) = Some g \<and> get_member g k = Some m
    \<and> \<not> is_bot m \<and> \<not> dm_closed m"
  then show "\<exists>t. MemberSend (uid m) t (map a_filename (m_attachments msg))
           \<in> set (fst (snd (handle_staff_reply e st c msg k body)))"
    using staff_reply_accept [OF h1 h2] by blast
qed

theorem attachment_boundary_witness:
  "(\<exists>a\<in>set (m_attachments (command ''!111 files''
        [file_of_size ''ok.png'' 10, file_of_size ''big.png'' (SIZE_LIMIT + 1)])).
      SIZE_LIMIT + 1 \<le> a_size a)
   \<and> snd (handle_attachments env0 coord (command ''!111 files''
        [file_of_size ''ok.png'' 10, file_of_size ''big.png'' (SIZE_LIMIT + 1)])) = Inl ValueError
   \<and> fst (handle_staff_reply env0 ready0 coord (command ''!111 files''
        [file_of_size ''ok.png'' 10, file_of_size ''big.png'' (SIZE_LIMIT + 1)]) 111 ''files'')
       = ready0
   \<and> m_attachments (command ''!111 file'' [file_of_size ''edge.png'' SIZE_LIMIT]) \<noteq> []
   \<and> a_size (file_of_size ''edge.png'' SIZE_LIMIT) = SIZE_LIMIT
   \<and> snd (handle_attachments env0 coord
        (command ''!111 file'' [file_of_size ''edge.png'' SIZE_LIMIT])) = Inr ([''edge.png''], True)
   \<and> (\<exists>t. MemberSend 111 t [''edge.png'']
          \<in> set (fst (snd (handle_staff_reply env0 ready0 coord
                (command ''!111 file'' [file_of_size ''edge.png'' SIZE_LIMIT]) 111 ''file''))))"
proof -
  let ?big = "command ''!111 files''
        [file_of_size ''ok.png'' 10, file_of_size ''big.png'' (SIZE_LIMIT + 1)]"
  let ?edge = "command ''!111 file'' [file_of_size ''edge.png'' SIZE_LIMIT]"
  have b: "\<exists>a\<in>set (m_attachments ?big). SIZE_LIMIT + 1 \<le> a_size a"
    by (simp add: command_def file_of_size_def)
  have e1: "m_attachments ?edge \<noteq> []" by (simp add: command_def)
  have e2: "\<forall>a\<in>set (m_attachments ?edge). a_size a \<le> SIZE_LIMIT"
    by (simp add: command_def file_of_size_def)
  have e3: "a_size (file_of_size ''edge.png'' SIZE_LIMIT) = SIZE_LIMIT"
    by (simp add: file_of_size_def)
  have g: "chan_guild (m_channel ?edge) = Some home \<and> get_member home 111 = Some alice
      \<and> \<not> is_bot alice \<and> \<not> dm_closed alice"
    by (simp add: command_def coord_def get_member_def home_def staff_def alice_def)
  have names: "map a_filename (m_attachments ?edge) = [''edge.png'']" and u: "uid alice = 111"
    by (simp_all add: command_def file_of_size_def alice_def)
  note big = attachment_boundary [where msg = ?big and e = env0 and c = coord and st = ready0
      and k = 111 and body = "''files''", THEN conjunct2, THEN conjunct1, THEN mp, OF b]
  note edge = attachment_boundary [where msg = ?edge and e = env0 and c = coord and st = ready0
      and k = 111 and body = "''file''", THEN conjunct2, THEN conjunct2, THEN mp,
      OF conjI [OF e1 e2]]
  from big have c1: "snd (handle_attachments env0 coord ?big) = Inl ValueError"
    and c2: "fst (handle_staff_reply env0 ready0 coord ?big 111 ''files'') = ready0"
    by blast+
  from edge [THEN conjunct1] have c3: "snd (handle_attachments env0 coord ?edge)
      = Inr ([''edge.png''], True)"
    by (simp only: snd_conv names)
  from edge [THEN conjunct2, rule_format, OF g]
  have c4: "\<exists>t. MemberSend 111 t [''edge.png'']
          \<in> set (fst (snd (handle_staff_reply env0 ready0 coord ?edge 111 ''file'')))"
    by (simp only: names u)
  from b c1 c2 e1 e3 c3 c4 show ?thesis by (intro conjI)
qed

subsection \<open>Staff replies\<close>

lemma download_all_kinds:
  "x \<in> set (download_all i n xs) \<Longrightarrow> (\<exists>f. x = Download f) \<or> (\<exists>t. x = ProgressEdit t)"
  by (induction xs arbitrary: i) auto

lemma handle_attachments_kinds:
  assumes "x \<in> set (fst (handle_attachments e c msg))"
  shows "(\<exists>i t. x = ChannelSend i t None) \<or> (\<exists>f. x = Download f) \<or> (\<exists>t. x = ProgressEdit t)"
proof -
  let ?atts = "m_attachments msg"
  from assms have "x \<in> set (download_all 1 (length ?atts) ?atts) \<or> (\<exists>i t. x = ChannelSend i t None)"
    by (simp add: handle_attachments_def Let_def split: if_splits) blast+
  then show ?thesis using download_all_kinds by blast
qed

lemma dispatch_staff_reply:
  assumes "tok = IntTok k \<or> (tok = StrTok ''r'' \<and> last_contact st = Some k)"
    and "rest \<noteq> [] \<or> m_attachments msg \<noteq> []"
  shows "dispatch e st c msg tok rest =
           after_call (handle_staff_reply e st c msg k (case rest of [] \<Rightarrow> [] | r # _ \<Rightarrow> r))"
proof -
  from assms(1) show ?thesis
  proof
    assume "tok = IntTok k"
    with assms(2) show ?thesis by (simp add: dispatch_def) blast
  next
    assume "tok = StrTok ''r'' \<and> last_contact st = Some k"
    with assms(2) show ?thesis by (simp add: dispatch_def) blast
  qed
qed

text \<open>
  C6. A staff reply, addressed by a numeric id or by \<^verbatim>\<open>r\<close> to the last contact, that
  has text or an attachment, whose target is a member and not a bot and whose attachments
  pass, reaches the send to the member. When the member refuses direct messages, the calls
  are those of the attachment staging, the edit of the progress message when there is one,
  and last the post of the failure report; the state is unchanged. Among the calls there is
  no post with an embed (the confirmation), no deletion of a message and no send to a
  member.
\<close>

theorem refused_delivery_stops:
  assumes "tok = IntTok k \<or> (tok = StrTok ''r'' \<and> last_contact st = Some k)"
    and "rest \<noteq> [] \<or> m_attachments msg \<noteq> []"
    and "chan_guild (m_channel msg) = Some g" and "get_member g k = Some m"
    and "\<not> is_bot m"
    and "handle_attachments e c msg = (effs, Inr (files, progress))"
    and "dm_closed m"
  shows "dispatch e st c msg tok rest =
           (st,
            effs @
            (if progress then
               [ProgressEdit
                  (''Sending message with '' @ str_nat (length files) @ '' attachments...'')]
             else []) @
            [ChannelSend (chan_id c)
               (mention (m_author msg) @ '' '' @ mention m @ '' has disabled DMs'') None],
            Next)
       \<and> (\<forall>x\<in>set (fst (snd (dispatch e st c msg tok rest))).
            (\<forall>i t emb. x \<noteq> ChannelSend i t (Some emb)) \<and> (\<forall>i. x \<noteq> MessageDelete i)
            \<and> (\<forall>u t fs. x \<noteq> MemberSend u t fs))"
proof -
  let ?report = "ChannelSend (chan_id c)
          (mention (m_author msg) @ '' '' @ mention m @ '' has disabled DMs'') None"
  let ?edit = "if progress then
          [ProgressEdit (''Sending message with '' @ str_nat (length files) @ '' attachments...'')]
        else []"
  have reply: "handle_staff_reply e st c msg k body = (st, effs @ ?edit @ [?report], Returned)"
    for body
    using assms(3-7) by (simp add: handle_staff_reply_def Let_def)
  have eq: "dispatch e st c msg tok rest = (st, effs @ ?edit @ [?report], Next)"
    by (simp only: dispatch_staff_reply [OF assms(1,2)] reply after_call.simps)
  have kinds: "(\<exists>i t. x = ChannelSend i t None) \<or> (\<exists>f. x = Download f) \<or> (\<exists>t. x = ProgressEdit t)"
    if "x \<in> set effs" for x
    using handle_attachments_kinds [of x e c msg] assms(6) that by simp
  have ok: "(\<forall>i t emb. x \<noteq> ChannelSend i t (Some emb)) \<and> (\<forall>i. x \<noteq> MessageDelete i)
            \<and> (\<forall>u t fs. x \<noteq> MemberSend u t fs)"
    if "x \<in> set (effs @ ?edit @ [?report])" for x
  proof -
    from that consider "x \<in> set effs" | "x \<in> set ?edit" | "x = ?report" by auto
    then show ?thesis
    proof cases
      case 1
      with kinds [of x] show ?thesis by fastforce
    next
      case 2
      then show ?thesis by (cases progress) simp_all
    next
      case 3
      then show ?thesis by simp
    qed
  qed
  show ?thesis
  proof
    show "dispatch e st c msg tok rest = (st, effs @ ?edit @ [?report], Next)" by (rule eq)
    show "\<forall>x\<in>set (fst (snd (dispatch e st c msg tok rest))).
            (\<forall>i t emb. x \<noteq> ChannelSend i t (Some emb)) \<and> (\<forall>i. x \<noteq> MessageDelete i)
            \<and> (\<forall>u t fs. x \<noteq> MemberSend u t fs)"
      unfolding eq fst_conv snd_conv using ok by blast
  qed
qed

theorem refused_delivery_stops_witness:
  "[''hi there''] \<noteq> []
   \<and> chan_guild (m_channel (command ''!222 hi there'' [])) = Some home
   \<and> get_member home 222 = Some carol \<and> \<not> is_bot carol
   \<and> handle_attachments env0 coord (command ''!222 hi there'' []) = ([], Inr ([], False))
   \<and> dm_closed carol
   \<and> dispatch env0 ready0 coord (command ''!222 hi there'' []) (IntTok 222) [''hi there'']
       = (ready0, [ChannelSend 5 ''<@900> <@222> has disabled DMs'' None], Next)
   \<and> last_contact (ready0\<lparr>last_id := Some 222\<rparr>) = Some 222
   \<and> dispatch env0 (ready0\<lparr>last_id := Some 222\<rparr>) coord (command ''!222 hi there'' [])
         (StrTok ''r'') [''hi there'']
       = (ready0\<lparr>last_id := Some 222\<rparr>,
          [ChannelSend 5 ''<@900> <@222> has disabled DMs'' None], Next)"
proof -
  let ?m = "command ''!222 hi there'' []"
  let ?st = "ready0\<lparr>last_id := Some 222\<rparr>"
  have l: "last_contact ?st = Some 222" by (simp add: last_contact_def)
  have h1: "IntTok 222 = IntTok 222 \<or> (IntTok 222 = StrTok ''r'' \<and> last_contact ready0 = Some 222)"
    by simp
  have h1': "StrTok ''r'' = IntTok 222 \<or> (StrTok ''r'' = StrTok ''r'' \<and> last_contact ?st = Some 222)"
    using l by simp
  have n: "[''hi there''] \<noteq> []" by simp
  then have h2: "[''hi there''] \<noteq> [] \<or> m_attachments ?m \<noteq> []" by simp
  have h3: "chan_guild (m_channel ?m) = Some home" by (simp add: command_def coord_def)
  have h4: "get_member home 222 = Some carol"
    by (simp add: get_member_def home_def staff_def alice_def carol_def)
  have h5: "\<not> is_bot carol" by (simp add: carol_def)
  have h6: "handle_attachments env0 coord ?m = ([], Inr ([], False))"
    by (simp add: handle_attachments_def command_def)
  have h7: "dm_closed carol" by (simp add: carol_def)
  from refused_delivery_stops [OF h1 h2 h3 h4 h5 h6 h7, THEN conjunct1]
  have c1: "dispatch env0 ready0 coord ?m (IntTok 222) [''hi there'']
       = (ready0, [ChannelSend 5 ''<@900> <@222> has disabled DMs'' None], Next)"
    by (simp add: command_def coord_def staff_def carol_def)
  from refused_delivery_stops [OF h1' h2 h3 h4 h5 h6 h7, THEN conjunct1]
  have c2: "dispatch env0 ?st coord ?m (StrTok ''r'') [''hi there'']
       = (?st, [ChannelSend 5 ''<@900> <@222> has disabled DMs'' None], Next)"
    by (simp add: command_def coord_def staff_def carol_def)
  from n h3 h4 h5 h6 h7 c1 l c2 show ?thesis by (intro conjI)
qed

subsection \<open>Unignore\<close>

text \<open>
  C7. For an \<^verbatim>\<open>unignore\<close> of a user who has an entry, what is sent before the removal
  follows the quiet flag of that entry, as the table held it before the command: nothing
  for a quiet entry; for an entry that is not quiet the notification to the member, or, when
  the member refuses direct messages or is not found, the report of that. In each case the
  rows of the user are then deleted and the report that the user is no longer ignored is
  posted last; afterwards the user has no entry.
\<close>

theorem unignore_notifies_from_prior_entry:
  assumes "py_int s = Inr k" and "chan_guild (m_channel msg) = Some g"
    and "is_ignored st k = Some (q, r)"
  shows "handle_unignore e st c msg s =
           (st\<lparr>ignored := filter (\<lambda>row. fst row \<noteq> k) (ignored st)\<rparr>,
            (if q then []
             else
               (case get_member g k of
                  None \<Rightarrow>
                    [ChannelSend (chan_id c)
                       ''Failed to find user with ID, not sending notification.'' None]
                | Some m \<Rightarrow>
                    if dm_closed m then
                      [ChannelSend (chan_id c)
                         (mention m @
                          '' has disabled DMs or is not in a shared server, not sending notification.'')
                         None]
                    else
                      [MemberSend (uid m)
                         ''Your messages are no longer being ignored by staff.'' []])) @
            [ChannelSend (chan_id c)
               (mention (m_author msg) @ '' '' @ str_int k @
                '' is no longer ignored. Messages from this user will appear again. Use `'' @
                command_prefix (cfg e) @ ''ignore` to reverse.'') None],
            Returned)
       \<and> is_ignored (fst (handle_unignore e st c msg s)) k = None"
proof -
  from assms(3) have "find (\<lambda>row. fst row = k) (ignored st) \<noteq> None"
    by (auto simp: is_ignored_def sql_select_def)
  then have "filter (\<lambda>row. fst row = k) (ignored st) \<noteq> []"
    by (metis (mono_tags, lifting) find_None_iff filter_empty_conv)
  then have n: "snd (sql_delete (ignored st) k) \<noteq> 0"
    by (simp add: sql_delete_def)
  have gone: "sql_select (filter (\<lambda>row. fst row \<noteq> k) (ignored st)) k = None"
    by (simp add: sql_select_def find_None_iff)
  from n assms have main: "handle_unignore e st c msg s =
           (st\<lparr>ignored := filter (\<lambda>row. fst row \<noteq> k) (ignored st)\<rparr>,
            (if q then []
             else
               (case get_member g k of
                  None \<Rightarrow>
                    [ChannelSend (chan_id c)
                       ''Failed to find user with ID, not sending notification.'' None]
                | Some m \<Rightarrow>
                    if dm_closed m then
                      [ChannelSend (chan_id c)
                         (mention m @
                          '' has disabled DMs or is not in a shared server, not sending notification.'')
                         None]
                    else
                      [MemberSend (uid m)
                         ''Your messages are no longer being ignored by staff.'' []])) @
            [ChannelSend (chan_id c)
               (mention (m_author msg) @ '' '' @ str_int k @
                '' is no longer ignored. Messages from this user will appear again. Use `'' @
                command_prefix (cfg e) @ ''ignore` to reverse.'') None],
            Returned)"
    by (simp add: handle_unignore_def unignore_notice_def remove_ignore_def sql_delete_def Let_def
        split: option.split)
  with gone show ?thesis by (simp add: is_ignored_def)
qed

theorem unignore_notifies_from_prior_entry_witness:
  "py_int ''222'' = Inr 222
   \<and> chan_guild (m_channel (command ''!unignore 222'' [])) = Some home
   \<and> is_ignored (ready0\<lparr>ignored := [(222, False, Some ''spam'')]\<rparr>) 222 = Some (False, Some ''spam'')
   \<and> handle_unignore env0 (ready0\<lparr>ignored := [(222, False, Some ''spam'')]\<rparr>) coord
        (command ''!unignore 222'' []) ''222''
       = (ready0,
          [ChannelSend 5
             ''<@222> has disabled DMs or is not in a shared server, not sending notification.''
             None,
           ChannelSend 5
             (''<@900> '' @ str_int 222 @
              '' is no longer ignored. Messages from this user will appear again. Use `!ignore` to reverse.'')
             None],
          Returned)
   \<and> is_ignored (fst (handle_unignore env0 (ready0\<lparr>ignored := [(222, False, Some ''spam'')]\<rparr>)
        coord (command ''!unignore 222'' []) ''222'')) 222 = None"
proof -
  let ?st = "ready0\<lparr>ignored := [(222, False, Some ''spam'')]\<rparr>"
  let ?m = "command ''!unignore 222'' []"
  have h1: "py_int ''222'' = Inr 222"
    by (simp add: py_int_def int_of_digits_def isdecimal_char_def digits_val_def digit_val_def)
  have h2: "chan_guild (m_channel ?m) = Some home" by (simp add: command_def coord_def)
  have h3: "is_ignored ?st 222 = Some (False, Some ''spam'')"
    by (simp add: is_ignored_def sql_select_def)
  have g: "get_member home 222 = Some carol"
    by (simp add: get_member_def home_def staff_def alice_def carol_def)
  note inst = unignore_notifies_from_prior_entry [OF h1 h2 h3, of env0 coord]
  from inst [THEN conjunct1] g have c1: "handle_unignore env0 ?st coord ?m ''222''
       = (ready0,
          [ChannelSend 5
             ''<@222> has disabled DMs or is not in a shared server, not sending notification.''
             None,
           ChannelSend 5
             (''<@900> '' @ str_int 222 @
              '' is no longer ignored. Messages from this user will appear again. Use `!ignore` to reverse.'')
             None],
          Returned)"
    by (simp add: command_def coord_def staff_def carol_def env0_def ready0_def)
  from inst [THEN conjunct2] have c2: "is_ignored (fst (handle_unignore env0 ?st coord ?m ''222'')) 222
      = None" .
  from h1 h2 h3 c1 c2 show ?thesis by (intro conjI)
qed

subsection \<open>Evaluation of the text functions\<close>

lemma digit_chars:
  "digit_char 0 = CHR ''0''" "digit_char (Suc 0) = CHR ''1''" "digit_char 2 = CHR ''2''"
  "digit_char 3 = CHR ''3''" "digit_char 4 = CHR ''4''" "digit_char 5 = CHR ''5''"
  "digit_char 6 = CHR ''6''" "digit_char 7 = CHR ''7''" "digit_char 8 = CHR ''8''"
  "digit_char 9 = CHR ''9''"
  by code_simp+

lemmas text_eval =
  startswith_def split1_def isspace_char_def isdigit_def isdigit_char_def isdecimal_char_def
  py_int_def
  int_of_digits_def digits_val_def digit_val_def str_int_def str_nat.simps digit_chars

lemmas server_eval =
  command_def dm_def env0_def ready0_def coord_def home_def staff_def alice_def carol_def
  get_member_def is_ignored_def sql_select_def

text \<open>
  A token of a superscript two passes \<^verbatim>\<open>isdigit\<close> and makes \<^verbatim>\<open>int()\<close> raise at
  line 180, and a no-break space separates the command from its text.
\<close>

lemma superscript_token_raises:
  "on_message_command env0 ready0 coord (command (''!'' @ [CHR 0xB2] @ '' hi'') []) =
     (ready0, [], Raised ValueError)"
  by (simp add: on_message_command_def text_eval server_eval)

lemma split_at_no_break_space:
  "split1 (''111'' @ [CHR 0xA0] @ ''hi'') = [''111'', ''hi'']"
  by (simp add: text_eval)

subsection \<open>Readiness\<close>

text \<open>
  C8. \<^verbatim>\<open>on_message\<close> is gated by \<^verbatim>\<open>already_ready\<close>, \<^verbatim>\<open>on_typing\<close> is not. In
  the state \<^verbatim>\<open>setup_hook\<close> leaves, a typing event of a user who is not ignored, in a
  direct-message channel, reads the ignore table and then raises \<^verbatim>\<open>AttributeError\<close> on
  \<^verbatim>\<open>self.channel\<close>. While \<^verbatim>\<open>on_ready\<close> waits for its startup message to be sent,
  the channel is bound and \<^verbatim>\<open>already_ready\<close> is still false: there the same event puts
  a typing indicator on the coordination channel, while a direct message of the same user is
  dropped by the gate.
\<close>

theorem typing_is_not_gated:
  "\<not> already_ready (setup_hook [])
   \<and> on_typing env0 (setup_hook []) (DMChannel 70) alice = (setup_hook [], [], Raised AttributeError)
   \<and> run env0 (start []) [Ready] =
       \<lparr>w_state = (setup_hook [])\<lparr>channel := Some coord\<rparr>, w_tasks = [ReadyFinish],
        w_log = [ChannelSend 5 ''ModMail is now ready.'' None]\<rparr>
   \<and> \<not> already_ready ((setup_hook [])\<lparr>channel := Some coord\<rparr>)
   \<and> on_typing env0 ((setup_hook [])\<lparr>channel := Some coord\<rparr>) (DMChannel 70) alice =
       ((setup_hook [])\<lparr>channel := Some coord\<rparr>, [ChannelTyping 5], Returned)
   \<and> on_message env0 ((setup_hook [])\<lparr>channel := Some coord\<rparr>) (dm alice ''hello'') =
       ((setup_hook [])\<lparr>channel := Some coord\<rparr>, [], Returned)
   \<and> w_log (run env0 (start []) [Ready, Typing (DMChannel 70) alice]) =
       [ChannelSend 5 ''ModMail is now ready.'' None, ChannelTyping 5]"
  by (simp add: run_def start_def on_ready_def get_channel_def on_typing_def on_message_def
      setup_hook_def server_eval)

subsection \<open>The duplicate flags\<close>

text \<open>
  C9. The dictionary \<^verbatim>\<open>anti_duplicate_replies\<close> and the reset of lines 235 and 236 are
  a guard against duplicate replies of which the marking and the check are missing: the same
  reply command, issued again while the reset of the first still waits, is carried out
  again. The member is sent the text twice and two confirmations are posted; no flag is
  stored while the resets wait, and once they have run the flag of the token is False.
\<close>

theorem duplicate_reply_is_sent_twice:
  "run env0 \<lparr>w_state = ready0, w_tasks = [], w_log = []\<rparr>
     [Message (command ''!111 hi'' []), Message ((command ''!111 hi'' [])\<lparr>m_id := 3\<rparr>)] =
   \<lparr>w_state = ready0,
    w_tasks = [DuplicateReset (IntTok 111), DuplicateReset (IntTok 111)],
    w_log =
      [MemberSend 111 ''<@900>: hi'' [],
       ChannelSend 5 ''<@900> replying to 111 <@111>''
         (Some \<lparr>e_color = 111, e_description = ''hi'', e_author = None, e_fields = []\<rparr>),
       MessageDelete 2,
       MemberSend 111 ''<@900>: hi'' [],
       ChannelSend 5 ''<@900> replying to 111 <@111>''
         (Some \<lparr>e_color = 111, e_description = ''hi'', e_author = None, e_fields = []\<rparr>),
       MessageDelete 3]\<rparr>
   \<and> anti_duplicate_replies ready0 (IntTok 111) = None
   \<and> w_state (run env0 \<lparr>w_state = ready0, w_tasks = [], w_log = []\<rparr>
        [Message (command ''!111 hi'' []), Message ((command ''!111 hi'' [])\<lparr>m_id := 3\<rparr>),
         Wake 0, Wake 0]) =
       ready0\<lparr>anti_duplicate_replies := [IntTok 111 \<mapsto> False]\<rparr>"
  by (simp add: run_def on_message_def on_message_command_def dispatch_def handle_staff_reply_def
      handle_attachments_def text_eval server_eval Let_def)

subsection \<open>The spam counter\<close>



























end
